theory Spec2Isabelle
  imports Complex_Main
begin

section \<open>Conventions of the embedding\<close>

text \<open>
  The drone simulator is Python. In the navigator, the drone and the matcher its
  \<^verbatim>\<open>float\<close> values (positions, distances, times, battery level) are modelled as
  \<^typ>\<open>real\<close>: the properties stated of them are about the control logic (which branch
  runs, which field is written, which comparison decides), and none of them depends on
  rounding. The conversion of a position to a map pixel does depend on it, since it ends
  in \<^verbatim>\<open>int()\<close>: there the values are binary64 floats, with their rounding, their
  infinities and NaN. Python \<^verbatim>\<open>int\<close> is \<^typ>\<open>int\<close>.

  An exception that the source can raise is a value \<open>Inl e\<close> of a sum type; a normal
  return is \<open>Inr v\<close>. Mutation of \<^verbatim>\<open>self\<close> is explicit state passing.
\<close>

datatype py_error =
  IndexError | TypeError | ValueError | AttributeError | ZeroDivisionError | OverflowError

text \<open>
  Python list indexing \<^verbatim>\<open>xs[i]\<close>: a negative index counts from the end of the list, and
  an index outside \<open>[-len, len)\<close> raises \<^verbatim>\<open>IndexError\<close>.
\<close>

definition py_getitem :: "'a list \<Rightarrow> int \<Rightarrow> py_error + 'a" where
  "py_getitem xs i =
     (if 0 \<le> i \<and> i < int (length xs) then Inr (xs ! nat i)
      else if i < 0 \<and> - int (length xs) \<le> i then Inr (xs ! nat (int (length xs) + i))
      else Inl IndexError)"

section \<open>Python floats: IEEE 754 binary64\<close>

text \<open>
  A float is a finite value, an infinity or NaN. The finite values are the reals
  \<open>m * 2 ^ e\<close> with \<open>\<bar>m\<bar> < 2 ^ 53\<close> and \<open>- 1074 \<le> e\<close>, below \<open>2 ^ 1024\<close> in magnitude. The
  two zeros are one value: no operation used here tells them apart (\<^verbatim>\<open>-0.0 == 0\<close> is
  true, a division by either raises, and \<^verbatim>\<open>int\<close> of either is 0).
\<close>

datatype pyfloat = Finite real | PosInf | NegInf | NaN

definition pow2 :: "int \<Rightarrow> real" where
  "pow2 k = (if 0 \<le> k then 2 ^ nat k else 1 / 2 ^ nat (- k))"

text \<open>
  The binary exponent of a real: the largest \<open>k\<close> with \<open>2 ^ k \<le> \<bar>x\<bar>\<close>, looked for from
  \<open>fuel - 1075\<close> downwards and no lower than \<open>- 1075\<close>. With fuel 2100 the search starts
  above every finite float and ends below the smallest one.
\<close>

fun find_exponent :: "nat \<Rightarrow> real \<Rightarrow> int" where
  "find_exponent 0 x = - 1075"
| "find_exponent (Suc n) x =
     (if pow2 (int (Suc n) - 1075) \<le> \<bar>x\<bar> then int (Suc n) - 1075 else find_exponent n x)"

definition float_exponent :: "real \<Rightarrow> int" where
  "float_exponent x = find_exponent 2100 x"

text \<open>Rounding a real to the nearest integer, a tie going to the even one.\<close>

definition round_half_even :: "real \<Rightarrow> int" where
  "round_half_even r =
     (let f = \<lfloor>r\<rfloor>
      in if r - of_int f < 1 / 2 then f
         else if r - of_int f > 1 / 2 then f + 1
         else if even f then f else f + 1)"

text \<open>
  Rounding a real to a float, as every arithmetic operation does with its exact result:
  to 53 significant bits (fewer below \<open>2 ^ (- 1022)\<close>, where the spacing stays
  \<open>2 ^ (- 1074)\<close>), ties to even, and to an infinity when the rounded value reaches
  \<open>2 ^ 1024\<close>.
\<close>

definition round_to_float :: "real \<Rightarrow> pyfloat" where
  "round_to_float x =
     (let e = max (float_exponent x) (- 1022) - 52;
          y = of_int (round_half_even (x / pow2 e)) * pow2 e
      in if pow2 1024 \<le> y then PosInf
         else if y \<le> - pow2 1024 then NegInf
         else Finite y)"

text \<open>\<^verbatim>\<open>a - b\<close> on floats.\<close>

fun float_sub :: "pyfloat \<Rightarrow> pyfloat \<Rightarrow> pyfloat" where
  "float_sub NaN b = NaN"
| "float_sub a NaN = NaN"
| "float_sub (Finite x) (Finite y) = round_to_float (x - y)"
| "float_sub (Finite x) PosInf = NegInf"
| "float_sub (Finite x) NegInf = PosInf"
| "float_sub PosInf PosInf = NaN"
| "float_sub PosInf b = PosInf"
| "float_sub NegInf NegInf = NaN"
| "float_sub NegInf b = NegInf"

text \<open>\<^verbatim>\<open>a * b\<close> on floats.\<close>

fun float_mul :: "pyfloat \<Rightarrow> pyfloat \<Rightarrow> pyfloat" where
  "float_mul NaN b = NaN"
| "float_mul a NaN = NaN"
| "float_mul (Finite x) (Finite y) = round_to_float (x * y)"
| "float_mul (Finite x) PosInf = (if x = 0 then NaN else if 0 < x then PosInf else NegInf)"
| "float_mul (Finite x) NegInf = (if x = 0 then NaN else if 0 < x then NegInf else PosInf)"
| "float_mul PosInf (Finite y) = (if y = 0 then NaN else if 0 < y then PosInf else NegInf)"
| "float_mul NegInf (Finite y) = (if y = 0 then NaN else if 0 < y then NegInf else PosInf)"
| "float_mul PosInf PosInf = PosInf"
| "float_mul PosInf NegInf = NegInf"
| "float_mul NegInf PosInf = NegInf"
| "float_mul NegInf NegInf = PosInf"

text \<open>
  \<^verbatim>\<open>a / b\<close> on floats. Python raises \<^verbatim>\<open>ZeroDivisionError\<close> when the divisor is zero,
  whatever the dividend; an overflow of the quotient is an infinity, not an exception.
\<close>

fun float_truediv :: "pyfloat \<Rightarrow> pyfloat \<Rightarrow> py_error + pyfloat" where
  "float_truediv a (Finite y) =
     (if y = 0 then Inl ZeroDivisionError
      else case a of
             NaN \<Rightarrow> Inr NaN
           | Finite x \<Rightarrow> Inr (round_to_float (x / y))
           | PosInf \<Rightarrow> Inr (if 0 < y then PosInf else NegInf)
           | NegInf \<Rightarrow> Inr (if 0 < y then NegInf else PosInf))"
| "float_truediv NaN b = Inr NaN"
| "float_truediv a NaN = Inr NaN"
| "float_truediv (Finite x) b = Inr (Finite 0)"
| "float_truediv a b = Inr NaN"

text \<open>The test \<^verbatim>\<open>a == 0\<close> on a float.\<close>

definition float_is_zero :: "pyfloat \<Rightarrow> bool" where
  "float_is_zero a = (a = Finite 0)"

text \<open>
  An \<^verbatim>\<open>int\<close> operand of a float operation is converted to a float first, rounded like
  any other value; one that is too large raises \<^verbatim>\<open>OverflowError\<close>.
\<close>

definition float_of_int :: "int \<Rightarrow> py_error + pyfloat" where
  "float_of_int n =
     (case round_to_float (of_int n) of
        Finite x \<Rightarrow> Inr (Finite x)
      | _ \<Rightarrow> Inl OverflowError)"

text \<open>Truncation of a real towards zero.\<close>

definition py_int :: "real \<Rightarrow> int" where
  "py_int x = (if 0 \<le> x then \<lfloor>x\<rfloor> else \<lceil>x\<rceil>)"

text \<open>
  Python \<^verbatim>\<open>int(x)\<close> on a float truncates towards zero; it raises \<^verbatim>\<open>OverflowError\<close> on
  an infinity and \<^verbatim>\<open>ValueError\<close> on NaN.
\<close>

fun int_of_float :: "pyfloat \<Rightarrow> py_error + int" where
  "int_of_float (Finite x) = Inr (py_int x)"
| "int_of_float PosInf = Inl OverflowError"
| "int_of_float NegInf = Inl OverflowError"
| "int_of_float NaN = Inl ValueError"

section \<open>navigation.py\<close>

text \<open>
  A waypoint is a dictionary with the keys \<^verbatim>\<open>'name'\<close>, \<^verbatim>\<open>'lat'\<close> and \<^verbatim>\<open>'lon'\<close>; the fields
  carry the prefix \<open>wp_\<close> because the drone has fields \<open>lat\<close> and \<open>lon\<close> of its own.
\<close>

record waypoint =
  wp_name :: string
  wp_lat :: real
  wp_lon :: real

text \<open>
  The geodesy the source takes from the library \<^verbatim>\<open>geopy\<close> and from \<^verbatim>\<open>math.atan2\<close> is
  not part of the repository; it is a parameter of every function that uses it:
  \<^item> \<open>geodesic_meters p q\<close> is \<^verbatim>\<open>geodesic(p, q).meters\<close>;
  \<^item> \<open>destination p b m\<close> is \<^verbatim>\<open>geodesic(meters=m).destination(Point(p), b)\<close>, as the
    pair (latitude, longitude);
  \<^item> \<open>atan2 y x\<close> is \<^verbatim>\<open>math.atan2(y, x)\<close>.
\<close>

record geodesy =
  geodesic_meters :: "real \<times> real \<Rightarrow> real \<times> real \<Rightarrow> real"
  destination :: "real \<times> real \<Rightarrow> real \<Rightarrow> real \<Rightarrow> real \<times> real"
  atan2 :: "real \<Rightarrow> real \<Rightarrow> real"

definition radians :: "real \<Rightarrow> real" where
  "radians x = x * pi / 180"

definition degrees :: "real \<Rightarrow> real" where
  "degrees x = x * 180 / pi"

text \<open>Python \<^verbatim>\<open>x % m\<close> on floats with a positive modulus.\<close>

definition py_fmod :: "real \<Rightarrow> real \<Rightarrow> real" where
  "py_fmod x m = x - m * of_int \<lfloor>x / m\<rfloor>"

definition calculate_bearing :: "geodesy \<Rightarrow> real \<Rightarrow> real \<Rightarrow> real \<Rightarrow> real \<Rightarrow> real" where
  "calculate_bearing g lat1 lon1 lat2 lon2 =
     (let lat1_rad = radians lat1;
          lon1_rad = radians lon1;
          lat2_rad = radians lat2;
          lon2_rad = radians lon2;
          dLon = lon2_rad - lon1_rad;
          y = sin dLon * cos lat2_rad;
          x = cos lat1_rad * sin lat2_rad - sin lat1_rad * cos lat2_rad * cos dLon;
          bearing_rad = atan2 g y x;
          bearing_deg = degrees bearing_rad
      in py_fmod (bearing_deg + 360) 360)"

record NavigationSystem =
  waypoints :: "waypoint list"
  current_waypoint_idx :: int
  reached_destination :: bool
  waypoint_threshold :: real
  distance_to_wp :: "real option"
  bearing_to_wp :: "real option"

definition NavigationSystem_init :: "waypoint list \<Rightarrow> NavigationSystem" where
  "NavigationSystem_init wps =
     \<lparr> waypoints = wps,
       current_waypoint_idx = 1,
       reached_destination = (if length wps > 1 then False else True),
       waypoint_threshold = 5,
       distance_to_wp = None,
       bearing_to_wp = None \<rparr>"

text \<open>
  \<^verbatim>\<open>NavigationSystem.update\<close>: clears distance and bearing when the route is finished or
  empty, and recomputes both against the current target otherwise. It writes no other field.
\<close>

definition nav_update :: "geodesy \<Rightarrow> real \<Rightarrow> real \<Rightarrow> NavigationSystem \<Rightarrow> py_error + NavigationSystem" where
  "nav_update g current_lat current_lon nav =
     (if reached_destination nav \<or> waypoints nav = [] then
        Inr (nav\<lparr>distance_to_wp := None, bearing_to_wp := None\<rparr>)
      else
        (case py_getitem (waypoints nav) (current_waypoint_idx nav) of
           Inl e \<Rightarrow> Inl e
         | Inr target_wp \<Rightarrow>
             (let target_pos = (wp_lat target_wp, wp_lon target_wp);
                  current_pos = (current_lat, current_lon)
              in Inr (nav\<lparr>distance_to_wp := Some (geodesic_meters g current_pos target_pos),
                           bearing_to_wp :=
                             Some (calculate_bearing g current_lat current_lon
                                     (fst target_pos) (snd target_pos))\<rparr>))))"

text \<open>
  \<^verbatim>\<open>advance_waypoint\<close>. The \<^verbatim>\<open>else\<close> branch of the inner test reads
  \<^verbatim>\<open>self.waypoints[self.current_waypoint_idx]['name']\<close> for its message, which can raise.
\<close>

definition advance_waypoint :: "NavigationSystem \<Rightarrow> py_error + NavigationSystem" where
  "advance_waypoint nav =
     (if \<not> reached_destination nav then
        (let nav1 = nav\<lparr>current_waypoint_idx := current_waypoint_idx nav + 1\<rparr>
         in if current_waypoint_idx nav1 \<ge> int (length (waypoints nav1)) then
              Inr (nav1\<lparr>reached_destination := True\<rparr>)
            else
              (case py_getitem (waypoints nav1) (current_waypoint_idx nav1) of
                 Inl e \<Rightarrow> Inl e
               | Inr w \<Rightarrow> Inr nav1))
      else Inr (nav\<lparr>reached_destination := True\<rparr>))"

definition set_new_route :: "waypoint list \<Rightarrow> NavigationSystem \<Rightarrow> NavigationSystem" where
  "set_new_route new_waypoints nav =
     nav\<lparr>waypoints := new_waypoints, current_waypoint_idx := 0, reached_destination := False\<rparr>"

definition get_current_waypoint_index :: "NavigationSystem \<Rightarrow> int" where
  "get_current_waypoint_index nav = current_waypoint_idx nav"

definition is_final_waypoint :: "NavigationSystem \<Rightarrow> bool" where
  "is_final_waypoint nav = (current_waypoint_idx nav = int (length (waypoints nav)) - 1)"

section \<open>drone.py\<close>

datatype DroneState =
  IDLE | TAKING_OFF | NAVIGATING | HOVERING | SEARCHING | MATCH_FOUND | RETURN_HOME
  | LANDING | LANDED

text \<open>
  The fields of \<^verbatim>\<open>Drone\<close>. The property \<^verbatim>\<open>altitude\<close> reads and writes \<open>z\<close>.
  \<open>hover_start_time\<close> and \<open>match_found_time\<close> start as \<^verbatim>\<open>None\<close>. The attribute
  \<^verbatim>\<open>search_radius\<close> does not exist until the first tick of a search creates it: \<open>None\<close>
  stands for the missing attribute, and reading it then raises \<^verbatim>\<open>AttributeError\<close>.
\<close>

record Drone =
  start_pos_lat_lon :: "real \<times> real"
  lat :: real
  lon :: real
  z :: real
  cruise_altitude :: real
  velocity :: real
  search_velocity :: real
  ascent_speed :: real
  descent_speed :: real
  landing_altitude :: real
  heading :: real
  battery :: real
  battery_drain_rate :: real
  state :: DroneState
  hover_start_time :: "real option"
  match_found_time :: "real option"
  search_start_time :: real
  max_search_radius :: real
  search_radius :: "real option"
  search_angle :: real
  search_center_lat :: real
  search_center_lon :: real
  total_search_time :: real

definition Drone_init :: "real \<times> real \<Rightarrow> real \<Rightarrow> Drone" where
  "Drone_init start_pos start_alt =
     \<lparr> start_pos_lat_lon = start_pos,
       lat = fst start_pos,
       lon = snd start_pos,
       z = 0,
       cruise_altitude = start_alt,
       velocity = 15,
       search_velocity = 5,
       ascent_speed = 5,
       descent_speed = 15 / 10,
       landing_altitude = 10,
       heading = 0,
       battery = 100,
       battery_drain_rate = 1 / 100,
       state = TAKING_OFF,
       hover_start_time = None,
       match_found_time = None,
       search_start_time = 0,
       max_search_radius = 20,
       search_radius = None,
       search_angle = 0,
       search_center_lat = 0,
       search_center_lon = 0,
       total_search_time = 0 \<rparr>"

definition initiate_landing :: "Drone \<Rightarrow> Drone" where
  "initiate_landing d = (if state d \<noteq> LANDING then d\<lparr>state := LANDING\<rparr> else d)"

text \<open>\<^verbatim>\<open>confirm_match\<close>; \<open>now\<close> is the reading of \<^verbatim>\<open>time.time()\<close>.\<close>

definition confirm_match :: "real \<Rightarrow> Drone \<Rightarrow> Drone" where
  "confirm_match now d =
     d\<lparr>state := MATCH_FOUND, match_found_time := Some now,
       search_start_time := 0, total_search_time := 0\<rparr>"

text \<open>
  The last two statements of \<^verbatim>\<open>Drone.update\<close>, under the comment
  \<^verbatim>\<open>Physics & Battery\<close>: clamp the altitude and drain the battery.
\<close>

definition physics_and_battery :: "real \<Rightarrow> Drone \<Rightarrow> Drone" where
  "physics_and_battery dt d =
     (let d1 = d\<lparr>z := max 0 (z d)\<rparr>
      in d1\<lparr>battery := max 0 (battery d1 - battery_drain_rate d1 * dt)\<rparr>)"

text \<open>Moving the drone: \<^verbatim>\<open>geodesic(meters=m).destination(Point(lat, lon), heading)\<close>.\<close>

definition move_along_heading :: "geodesy \<Rightarrow> real \<Rightarrow> Drone \<Rightarrow> Drone" where
  "move_along_heading g m d =
     (let p = destination g (lat d, lon d) (heading d) m
      in d\<lparr>lat := fst p, lon := snd p\<rparr>)"

text \<open>The branch of \<^verbatim>\<open>update\<close> for \<^verbatim>\<open>TAKING_OFF\<close>.\<close>

definition update_taking_off :: "real \<Rightarrow> Drone \<Rightarrow> Drone" where
  "update_taking_off dt d =
     (let d1 = d\<lparr>z := z d + ascent_speed d * dt\<rparr>
      in if z d1 \<ge> cruise_altitude d1
         then d1\<lparr>z := cruise_altitude d1, state := NAVIGATING\<rparr>
         else d1)"

text \<open>
  The branch for \<^verbatim>\<open>NAVIGATING\<close>. The comparison
  \<^verbatim>\<open>distance_to_wp < braking_distance\<close> comes before the test for \<^verbatim>\<open>None\<close>, so a
  missing distance raises \<^verbatim>\<open>TypeError\<close> there.
\<close>

definition update_navigating :: "geodesy \<Rightarrow> real \<Rightarrow> NavigationSystem \<Rightarrow> Drone \<Rightarrow> py_error + Drone" where
  "update_navigating g dt nav d =
     (if reached_destination nav then Inr d
      else
        (let d1 = (case bearing_to_wp nav of Some b \<Rightarrow> d\<lparr>heading := b\<rparr> | None \<Rightarrow> d)
         in case distance_to_wp nav of
              None \<Rightarrow> Inl TypeError
            | Some distance \<Rightarrow>
                (let braking_distance = 30;
                     current_velocity =
                       (if distance < braking_distance then
                          (let min_velocity = 3;
                               speed_ratio = max 0 (distance / braking_distance)
                           in min_velocity + (velocity d1 - min_velocity) * speed_ratio)
                        else velocity d1);
                     distance_this_frame = current_velocity * dt;
                     distance_moved = min distance_this_frame distance;
                     d2 = (if distance_moved > 0 then move_along_heading g distance_moved d1
                           else d1)
                 in Inr (if distance < waypoint_threshold nav then d2\<lparr>state := HOVERING\<rparr>
                         else d2))))"

text \<open>
  The branch for \<^verbatim>\<open>HOVERING\<close> only evaluates \<^verbatim>\<open>time.time() - self.hover_start_time\<close>,
  which raises \<^verbatim>\<open>TypeError\<close> while \<open>hover_start_time\<close> is \<^verbatim>\<open>None\<close>.
\<close>

definition update_hovering :: "Drone \<Rightarrow> py_error + Drone" where
  "update_hovering d = (case hover_start_time d of None \<Rightarrow> Inl TypeError | Some t \<Rightarrow> Inr d)"

text \<open>
  The branch for \<^verbatim>\<open>SEARCHING\<close>. The result carries a flag: \<open>True\<close> when the branch
  left \<^verbatim>\<open>update\<close> through its \<^verbatim>\<open>return\<close> (the end of a search segment), so that the
  statements after the state logic are skipped. The calls of \<^verbatim>\<open>time.time()\<close> within one
  tick are one reading, \<open>now\<close>.
\<close>

definition update_searching ::
  "geodesy \<Rightarrow> real \<Rightarrow> real \<Rightarrow> Drone \<times> NavigationSystem \<Rightarrow> py_error + (bool \<times> Drone \<times> NavigationSystem)" where
  "update_searching g now dt dn =
     (let d0 = fst dn; nav = snd dn;
          d1 = d0\<lparr>total_search_time := total_search_time d0 + dt\<rparr>;
          d2 = (if search_start_time d1 = 0 then
                  d1\<lparr>search_start_time := now, search_radius := Some 5, search_angle := 0,
                     search_center_lat := lat d1, search_center_lon := lon d1\<rparr>
                else d1);
          time_in_search = now - search_start_time d2
      in case search_radius d2 of
           None \<Rightarrow> Inl AttributeError
         | Some r \<Rightarrow>
             (let r' = (if r < max_search_radius d2 then r + 1 * dt else r);
                  d3 = d2\<lparr>search_radius := Some r'\<rparr>;
                  d4 = d3\<lparr>search_angle := search_angle d3 + 60 * dt\<rparr>;
                  target = destination g (search_center_lat d4, search_center_lon d4)
                             (search_angle d4) r';
                  bearing_to_target = calculate_bearing g (lat d4) (lon d4) (fst target) (snd target);
                  d5 = d4\<lparr>heading := bearing_to_target\<rparr>;
                  distance_this_frame = search_velocity d5 * dt;
                  d6 = move_along_heading g distance_this_frame d5
              in if time_in_search > 5 then
                   Inr (True, d6\<lparr>state := HOVERING, hover_start_time := Some now,
                                 search_start_time := 0\<rparr>, nav)
                 else if total_search_time d6 > 30 then
                   (let d7 = d6\<lparr>state := RETURN_HOME\<rparr>;
                        home_waypoint = \<lparr> wp_name = ''Home'',
                                          wp_lat = fst (start_pos_lat_lon d7),
                                          wp_lon = snd (start_pos_lat_lon d7) \<rparr>
                    in Inr (False, d7\<lparr>total_search_time := 0\<rparr>,
                            set_new_route [home_waypoint] nav))
                 else Inr (False, d6, nav)))"

text \<open>The branch for \<^verbatim>\<open>MATCH_FOUND\<close>.\<close>

definition update_match_found ::
  "real \<Rightarrow> Drone \<times> NavigationSystem \<Rightarrow> py_error + (Drone \<times> NavigationSystem)" where
  "update_match_found now dn =
     (let d = fst dn; nav = snd dn
      in case match_found_time d of
           None \<Rightarrow> Inl TypeError
         | Some t \<Rightarrow>
             (if now - t > 1 then
                (if is_final_waypoint nav then Inr (initiate_landing d, nav)
                 else
                   (case advance_waypoint nav of
                      Inl e \<Rightarrow> Inl e
                    | Inr nav' \<Rightarrow> Inr (d\<lparr>state := NAVIGATING\<rparr>, nav')))
              else Inr (d, nav)))"

text \<open>The branch for \<^verbatim>\<open>RETURN_HOME\<close>.\<close>

definition update_return_home :: "geodesy \<Rightarrow> real \<Rightarrow> NavigationSystem \<Rightarrow> Drone \<Rightarrow> Drone" where
  "update_return_home g dt nav d =
     (if reached_destination nav then initiate_landing d
      else
        (let d1 = (case bearing_to_wp nav of Some b \<Rightarrow> d\<lparr>heading := b\<rparr> | None \<Rightarrow> d);
             distance_this_frame = velocity d1 * dt;
             distance_moved =
               (case distance_to_wp nav of
                  Some distance \<Rightarrow> min distance_this_frame distance
                | None \<Rightarrow> distance_this_frame)
         in if distance_moved > 0 then move_along_heading g distance_moved d1 else d1))"

text \<open>The branch for \<^verbatim>\<open>LANDING\<close>.\<close>

definition update_landing :: "real \<Rightarrow> Drone \<Rightarrow> Drone" where
  "update_landing dt d =
     (let d1 = d\<lparr>z := z d - descent_speed d * dt\<rparr>
      in if z d1 \<le> 1 / 10 then d1\<lparr>z := 0, state := LANDED, velocity := 0\<rparr> else d1)"

text \<open>
  \<^verbatim>\<open>Drone.update(dt, nav_system)\<close>. The drone and the navigator it is given are both
  mutable, so the tick takes and returns the pair. \<^verbatim>\<open>IDLE\<close> has no branch: such a tick
  only runs the statements after the state logic.
\<close>

definition update ::
  "geodesy \<Rightarrow> real \<Rightarrow> real \<Rightarrow> Drone \<times> NavigationSystem \<Rightarrow> py_error + (Drone \<times> NavigationSystem)" where
  "update g now dt dn =
     (let d = fst dn; nav = snd dn
      in case state d of
           LANDED \<Rightarrow> Inr (d, nav)
         | TAKING_OFF \<Rightarrow> Inr (physics_and_battery dt (update_taking_off dt d), nav)
         | NAVIGATING \<Rightarrow>
             (case update_navigating g dt nav d of
                Inl e \<Rightarrow> Inl e
              | Inr d' \<Rightarrow> Inr (physics_and_battery dt d', nav))
         | HOVERING \<Rightarrow>
             (case update_hovering d of
                Inl e \<Rightarrow> Inl e
              | Inr d' \<Rightarrow> Inr (physics_and_battery dt d', nav))
         | SEARCHING \<Rightarrow>
             (case update_searching g now dt (d, nav) of
                Inl e \<Rightarrow> Inl e
              | Inr (returned, d', nav') \<Rightarrow>
                  (if returned then Inr (d', nav') else Inr (physics_and_battery dt d', nav')))
         | MATCH_FOUND \<Rightarrow>
             (case update_match_found now (d, nav) of
                Inl e \<Rightarrow> Inl e
              | Inr (d', nav') \<Rightarrow> Inr (physics_and_battery dt d', nav'))
         | RETURN_HOME \<Rightarrow> Inr (physics_and_battery dt (update_return_home g dt nav d), nav)
         | LANDING \<Rightarrow> Inr (physics_and_battery dt (update_landing dt d), nav)
         | IDLE \<Rightarrow> Inr (physics_and_battery dt d, nav))"

text \<open>
  Ticks in a row: \<^verbatim>\<open>update\<close> called once for each pair (clock reading, \<open>dt\<close>) of the list,
  stopping at the first exception.
\<close>

fun run_ticks ::
  "geodesy \<Rightarrow> (real \<times> real) list \<Rightarrow> Drone \<times> NavigationSystem \<Rightarrow> py_error + (Drone \<times> NavigationSystem)" where
  "run_ticks g [] dn = Inr dn"
| "run_ticks g (t # ts) dn =
     (case update g (fst t) (snd t) dn of
        Inl e \<Rightarrow> Inl e
      | Inr dn' \<Rightarrow> run_ticks g ts dn')"

section \<open>vision_system.py\<close>

text \<open>
  OpenCV is not part of the repository. What the source uses of it is a parameter:
  \<^item> \<open>detectAndCompute img\<close> is \<^verbatim>\<open>orb.detectAndCompute(gray(img), None)\<close>: the keypoints and
    the descriptors, \<open>None\<close> when the image has none;
  \<^item> \<open>knnMatch q t\<close> is \<^verbatim>\<open>matcher.knnMatch(q, t, k=2)\<close>: for each query descriptor the
    list of its nearest matches, best first. The approximate matcher can return fewer than
    two matches for a descriptor.
  A match carries its distance and the indices of the two descriptors.
\<close>

type_synonym keypoint = "real \<times> real"

type_synonym descriptor = "nat list"

record DMatch =
  distance :: real
  queryIdx :: nat
  trainIdx :: nat

record 'img opencv =
  detectAndCompute :: "'img \<Rightarrow> keypoint list \<times> descriptor list option"
  knnMatch :: "descriptor list \<Rightarrow> descriptor list \<Rightarrow> DMatch list list"

text \<open>One entry of \<^verbatim>\<open>waypoint_features\<close>; the grey image kept under \<^verbatim>\<open>'img'\<close> is only drawn.\<close>

record features =
  kp :: "keypoint list"
  des :: "descriptor list option"

record VisionSystem =
  waypoint_features :: "features list"
  confidence_threshold :: real

definition preprocess_snapshots :: "'img opencv \<Rightarrow> 'img list \<Rightarrow> features list" where
  "preprocess_snapshots cv satellite_snapshots =
     map (\<lambda>snapshot. \<lparr> kp = fst (detectAndCompute cv snapshot),
                        des = snd (detectAndCompute cv snapshot) \<rparr>) satellite_snapshots"

definition VisionSystem_init :: "'img opencv \<Rightarrow> 'img list \<Rightarrow> VisionSystem" where
  "VisionSystem_init cv satellite_snapshots =
     \<lparr> waypoint_features = preprocess_snapshots cv satellite_snapshots,
       confidence_threshold = 25 / 100 \<rparr>"

text \<open>
  The loop \<^verbatim>\<open>for m, n in matches\<close> with Lowe's ratio test. Unpacking an entry that is not
  a pair raises \<^verbatim>\<open>ValueError\<close>. The second argument is \<^verbatim>\<open>good_matches\<close> so far.
\<close>

fun ratio_test :: "DMatch list list \<Rightarrow> DMatch list \<Rightarrow> py_error + DMatch list" where
  "ratio_test [] good_matches = Inr good_matches"
| "ratio_test (e # es) good_matches =
     (case e of
        [m, n] \<Rightarrow>
          ratio_test es
            (if distance m < 7 / 10 * distance n then good_matches @ [m] else good_matches)
      | _ \<Rightarrow> Inl ValueError)"

text \<open>
  \<^verbatim>\<open>match_waypoint\<close> returns a triple; its third component is the picture drawn by
  \<^verbatim>\<open>_draw_matches\<close>, which plays no part in the decision and is left out.
\<close>

definition match_waypoint ::
  "'img opencv \<Rightarrow> VisionSystem \<Rightarrow> 'img \<Rightarrow> int \<Rightarrow> py_error + (bool \<times> real)" where
  "match_waypoint cv vs camera_np waypoint_index =
     (if waypoint_index \<ge> int (length (waypoint_features vs)) then Inr (False, 0)
      else
        (case py_getitem (waypoint_features vs) waypoint_index of
           Inl e \<Rightarrow> Inl e
         | Inr target_features \<Rightarrow>
             (case des target_features of
                None \<Rightarrow> Inr (False, 0)
              | Some des_target \<Rightarrow>
                  (case snd (detectAndCompute cv camera_np) of
                     None \<Rightarrow> Inr (False, 0)
                   | Some des_camera \<Rightarrow>
                       (case ratio_test (knnMatch cv des_target des_camera) [] of
                          Inl e \<Rightarrow> Inl e
                        | Inr good_matches \<Rightarrow>
                            (let num_good_matches = length good_matches;
                                 total_target_kp = length (kp target_features);
                                 confidence = (if total_target_kp > 0
                                               then real num_good_matches / 100 else 0);
                                 match_successful = (confidence \<ge> confidence_threshold vs)
                             in Inr (match_successful, confidence)))))))"

section \<open>environment.py\<close>

text \<open>
  Of \<^verbatim>\<open>Environment\<close> the conversion reads the bounding box
  \<^verbatim>\<open>map_meta['bbox']\<close> = (min_lon, min_lat, max_lon, max_lat), as floats, and the size in
  pixels of the map surface, as integers.
\<close>

record Environment =
  bbox :: "pyfloat \<times> pyfloat \<times> pyfloat \<times> pyfloat"
  map_size :: "int \<times> int"

text \<open>
  Both coordinates are expressions of one shape, \<^verbatim>\<open>((a - b) / extent) * pixels\<close>, with
  \<open>pixels\<close> an \<^verbatim>\<open>int\<close>: \<open>interpolate a b extent pixels\<close> is its evaluation, operation
  by operation.
\<close>

definition interpolate :: "pyfloat \<Rightarrow> pyfloat \<Rightarrow> pyfloat \<Rightarrow> int \<Rightarrow> py_error + pyfloat" where
  "interpolate a b extent pixels =
     (case float_truediv (float_sub a b) extent of
        Inl e \<Rightarrow> Inl e
      | Inr q \<Rightarrow>
          (case float_of_int pixels of
             Inl e \<Rightarrow> Inl e
           | Inr fpixels \<Rightarrow> Inr (float_mul q fpixels)))"

text \<open>
  \<^verbatim>\<open>latlon_to_screen\<close>. Both coordinates are computed before either is converted:
  \<^verbatim>\<open>return int(screen_x), int(screen_y)\<close>. A number that JSON gives without a fraction
  is an \<^verbatim>\<open>int\<close> in Python; on integers below \<open>2 ^ 53\<close> the operations return what they
  return on the equal floats.
\<close>

definition latlon_to_screen ::
  "Environment \<Rightarrow> pyfloat \<Rightarrow> pyfloat \<Rightarrow> py_error + (int \<times> int)" where
  "latlon_to_screen env la lo =
     (case bbox env of (min_lon, min_lat, max_lon, max_lat) \<Rightarrow>
      case map_size env of (map_width, map_height) \<Rightarrow>
        (let lon_range = float_sub max_lon min_lon;
             lat_range = float_sub max_lat min_lat
         in if float_is_zero lon_range \<or> float_is_zero lat_range
            then Inr (map_width div 2, map_height div 2)
            else
              (case interpolate lo min_lon lon_range map_width of
                 Inl e \<Rightarrow> Inl e
               | Inr screen_x \<Rightarrow>
                   (case interpolate max_lat la lat_range map_height of
                      Inl e \<Rightarrow> Inl e
                    | Inr screen_y \<Rightarrow>
                        (case int_of_float screen_x of
                           Inl e \<Rightarrow> Inl e
                         | Inr sx \<Rightarrow>
                             (case int_of_float screen_y of
                                Inl e \<Rightarrow> Inl e
                              | Inr sy \<Rightarrow> Inr (sx, sy)))))))"

section \<open>The mission loop of simulation\_main.py\<close>

text \<open>
  Besides calling \<^verbatim>\<open>update\<close>, the loop acts on the drone in two ways after a match
  attempt: \<^verbatim>\<open>drone.confirm_match()\<close> on success, and the assignment
  \<^verbatim>\<open>drone.state = DroneState.SEARCHING\<close> when the attempt failed while hovering.
\<close>

definition begin_search :: "Drone \<Rightarrow> Drone" where
  "begin_search d = (if state d = HOVERING then d\<lparr>state := SEARCHING\<rparr> else d)"

text \<open>
  The drones a mission can hold: the constructed one, and whatever the operations make of
  it, with any clock, any \<open>dt\<close>, any geodesy and any navigator. The method
  \<^verbatim>\<open>reset_position\<close> has no caller and is not an operation of a mission.
\<close>

inductive reachable :: "Drone \<Rightarrow> bool" where
  constructed: "reachable (Drone_init start_pos start_alt)"
| ticked: "reachable d \<Longrightarrow> update g now dt (d, nav) = Inr (d', nav') \<Longrightarrow> reachable d'"
| match_confirmed: "reachable d \<Longrightarrow> reachable (confirm_match now d)"
| landing_initiated: "reachable d \<Longrightarrow> reachable (initiate_landing d)"
| search_begun: "reachable d \<Longrightarrow> reachable (begin_search d)"

section \<open>Inputs for evaluation\<close>

text \<open>
  A geodesy to run ticks on concrete inputs: the plane, with the distance of the maximum
  norm, a destination that moves north only, and a constant \<open>atan2\<close> (so every bearing
  is 0, north): the geometry of a drone due south of its target. An OpenCV over images that
  are numbers: image 0 has no features, image 1 has 26 keypoints, of which 25 pass the
  ratio test against any live image and one misses it on the boundary.
\<close>

definition plane :: geodesy where
  "plane = \<lparr> geodesic_meters = (\<lambda>p q. max \<bar>fst p - fst q\<bar> \<bar>snd p - snd q\<bar>),
             destination = (\<lambda>p b m. (fst p + m, snd p)),
             atan2 = (\<lambda>y x. 0) \<rparr>"

definition home :: waypoint where
  "home = \<lparr> wp_name = ''Home'', wp_lat = 0, wp_lon = 0 \<rparr>"

definition route :: "waypoint list" where
  "route = [\<lparr> wp_name = ''Start'', wp_lat = 0, wp_lon = 0 \<rparr>,
            \<lparr> wp_name = ''A'', wp_lat = 100, wp_lon = 0 \<rparr>]"

definition test_cv :: "nat opencv" where
  "test_cv =
     \<lparr> detectAndCompute =
         (\<lambda>img. if img = 0 then ([], None)
                else if img = 1 then (replicate 26 (0, 0), Some (replicate 25 [69] @ [[70]]))
                else ([(0, 0)], Some [[img]])),
       knnMatch =
         (\<lambda>q t. map (\<lambda>dq. [\<lparr> distance = real (hd dq), queryIdx = 0, trainIdx = 0 \<rparr>,
                              \<lparr> distance = 100, queryIdx = 0, trainIdx = 1 \<rparr>]) q) \<rparr>"

text \<open>The drone that a tick, or a run of ticks, returns; \<open>None\<close> when it raised.\<close>

definition returned_drone :: "py_error + (Drone \<times> NavigationSystem) \<Rightarrow> Drone option" where
  "returned_drone r = (case r of Inl e \<Rightarrow> None | Inr dn \<Rightarrow> Some (fst dn))"

definition returned_nav :: "py_error + (Drone \<times> NavigationSystem) \<Rightarrow> NavigationSystem option" where
  "returned_nav r = (case r of Inl e \<Rightarrow> None | Inr dn \<Rightarrow> Some (snd dn))"

text \<open>
  Navigators and drones at points of a mission: a navigator on the home-only route with the
  drone 15 m south of home; that drone at cruise altitude; a drone that has just been put in
  \<open>SEARCHING\<close> by the loop; the same drone after its first search tick of half a
  second at clock 1000, and after the tick at clock 1005.5 that ends the segment; and a
  drone 3 s into a later segment, its radius at the maximum, 29.9 s of search behind it.
\<close>

definition homeward :: NavigationSystem where
  "homeward = \<lparr> waypoints = [home], current_waypoint_idx = 0, reached_destination = False,
               waypoint_threshold = 5, distance_to_wp = Some 15, bearing_to_wp = Some 0 \<rparr>"

definition south_of_home :: Drone where
  "south_of_home = (Drone_init (0, 0) 10)\<lparr>lat := - 15, z := 10\<rparr>"

definition searcher :: Drone where
  "searcher = (Drone_init (0, 0) 10)\<lparr>z := 10, state := SEARCHING\<rparr>"

definition in_first_segment :: Drone where
  "in_first_segment =
     searcher\<lparr>total_search_time := 1 / 2, search_start_time := 1000,
              search_radius := Some (11 / 2), search_angle := 30,
              lat := 5 / 2, battery := 19999 / 200\<rparr>"

definition after_segment :: Drone where
  "after_segment =
     searcher\<lparr>total_search_time := 1, search_start_time := 0,
              search_radius := Some 6, search_angle := 60,
              lat := 5, battery := 19999 / 200,
              state := HOVERING, hover_start_time := Some (2011 / 2)\<rparr>"

definition long_searcher :: Drone where
  "long_searcher =
     searcher\<lparr>total_search_time := 299 / 10, search_start_time := 1000,
              search_radius := Some 20, search_angle := 180\<rparr>"

text \<open>
  Three maps: a square one of 49 by 49 pixels over 49 by 49 degrees; one whose bounding box
  has no extent in longitude; and one whose extent in longitude is the smallest positive
  float, \<open>2 ^ (- 1074)\<close>, which Python prints as \<^verbatim>\<open>5e-324\<close>.
\<close>

definition square_map :: Environment where
  "square_map = \<lparr> bbox = (Finite 0, Finite 0, Finite 49, Finite 49), map_size = (49, 49) \<rparr>"

definition line_map :: Environment where
  "line_map = \<lparr> bbox = (Finite 49, Finite 0, Finite 49, Finite 49), map_size = (1500, 1001) \<rparr>"

definition thin_map :: Environment where
  "thin_map = \<lparr> bbox = (Finite 0, Finite 0, Finite (1 / 2 ^ 1074), Finite 1), map_size = (49, 49) \<rparr>"

section \<open>The invariant of a running search segment\<close>

text \<open>
  \<open>in_segment r d\<close>: the spiral radius of \<open>d\<close> exists and is at least \<open>r\<close>, and \<open>d\<close> is
  in a state that ticks alone can reach from a search whose segment has started, with the
  timer that state reads in place.
\<close>

definition in_segment :: "real \<Rightarrow> Drone \<Rightarrow> bool" where
  "in_segment r d =
     ((case search_radius d of None \<Rightarrow> False | Some r' \<Rightarrow> r \<le> r') \<and>
      (case state d of
         SEARCHING \<Rightarrow> search_start_time d \<noteq> 0
       | HOVERING \<Rightarrow> hover_start_time d \<noteq> None
       | RETURN_HOME \<Rightarrow> True
       | LANDING \<Rightarrow> True
       | LANDED \<Rightarrow> True
       | _ \<Rightarrow> False))"

section \<open>How a tick moves the discrete state\<close>

lemma state_physics_and_battery: "state (physics_and_battery dt d) = state d"
  by (simp add: physics_and_battery_def Let_def)

lemma state_move_along_heading: "state (move_along_heading g m d) = state d"
  by (simp add: move_along_heading_def Let_def)

lemma state_taking_off:
  "state (update_taking_off dt d) = state d \<or> state (update_taking_off dt d) = NAVIGATING"
  by (simp add: update_taking_off_def Let_def)

lemma state_navigating:
  "update_navigating g dt nav d = Inr d' \<Longrightarrow> state d' = state d \<or> state d' = HOVERING"
  by (auto simp: update_navigating_def Let_def state_move_along_heading
      split: if_splits option.splits)

lemma state_hovering: "update_hovering d = Inr d' \<Longrightarrow> state d' = state d"
  by (auto simp: update_hovering_def split: option.splits)

lemma state_searching:
  "update_searching g now dt (d, nav) = Inr (b, d', nav') \<Longrightarrow>
     state d' = state d \<or> state d' = HOVERING \<or> state d' = RETURN_HOME"
  by (auto simp: update_searching_def Let_def state_move_along_heading
      split: if_splits option.splits)

lemma state_match_found:
  "update_match_found now (d, nav) = Inr (d', nav') \<Longrightarrow>
     state d' = state d \<or> state d' = LANDING \<or> state d' = NAVIGATING"
  by (auto simp: update_match_found_def Let_def initiate_landing_def
      split: if_splits option.splits sum.splits)

lemma state_return_home:
  "state (update_return_home g dt nav d) = state d \<or>
   state (update_return_home g dt nav d) = LANDING"
  by (auto simp: update_return_home_def Let_def initiate_landing_def state_move_along_heading
      split: option.splits)

lemma state_landing:
  "state (update_landing dt d) = state d \<or> state (update_landing dt d) = LANDED"
  by (simp add: update_landing_def Let_def)

lemma update_keeps_off_idle:
  assumes "update g now dt (d, nav) = Inr (d', nav')" and "state d \<noteq> IDLE"
  shows "state d' \<noteq> IDLE"
proof (cases "state d")
  case IDLE
  with assms show ?thesis by simp
next
  case TAKING_OFF
  with assms state_taking_off [of dt d] show ?thesis
    by (auto simp: update_def state_physics_and_battery)
next
  case NAVIGATING
  with assms show ?thesis
    by (auto simp: update_def state_physics_and_battery split: sum.splits
        dest!: state_navigating)
next
  case HOVERING
  with assms show ?thesis
    by (auto simp: update_def state_physics_and_battery split: sum.splits dest!: state_hovering)
next
  case SEARCHING
  with assms show ?thesis
    by (auto simp: update_def state_physics_and_battery split: sum.splits if_splits
        dest!: state_searching)
next
  case MATCH_FOUND
  with assms show ?thesis
    by (auto simp: update_def state_physics_and_battery split: sum.splits
        dest!: state_match_found)
next
  case RETURN_HOME
  with assms state_return_home [of g dt nav d] show ?thesis
    by (auto simp: update_def state_physics_and_battery)
next
  case LANDING
  with assms state_landing [of dt d] show ?thesis
    by (auto simp: update_def state_physics_and_battery)
next
  case LANDED
  with assms show ?thesis by (auto simp: update_def)
qed

lemma first_tick:
  "update plane 1000 1 (Drone_init (0, 0) 10, NavigationSystem_init route)
     = Inr ((Drone_init (0, 0) 10)\<lparr>z := 5, battery := 9999 / 100\<rparr>, NavigationSystem_init route)"
  by (simp add: update_def Drone_init_def update_taking_off_def physics_and_battery_def Let_def)

section \<open>The route index at the end of the route\<close>

text \<open>
  C8. Once \<open>reached_destination\<close> is true, \<^verbatim>\<open>advance_waypoint\<close> returns the navigator
  unchanged: the flag stays true and the index does not move. While the flag is false, an
  index whose successor is past the last valid index \<open>len - 1\<close> is incremented and the
  flag is set; no exception is raised in either case.
\<close>

theorem advance_waypoint_at_end:
  "(reached_destination nav \<longrightarrow> advance_waypoint nav = Inr nav) \<and>
   (\<not> reached_destination nav \<and>
      current_waypoint_idx nav + 1 > int (length (waypoints nav)) - 1 \<longrightarrow>
      advance_waypoint nav =
        Inr (nav\<lparr>current_waypoint_idx := current_waypoint_idx nav + 1,
                 reached_destination := True\<rparr>))"
  by (simp add: advance_waypoint_def Let_def)

theorem advance_waypoint_at_end_witness:
  "advance_waypoint ((NavigationSystem_init route)\<lparr>reached_destination := True\<rparr>)
     = Inr ((NavigationSystem_init route)\<lparr>reached_destination := True\<rparr>) \<and>
   advance_waypoint (NavigationSystem_init route)
     = Inr ((NavigationSystem_init route)\<lparr>current_waypoint_idx := 2,
              reached_destination := True\<rparr>)"
  using advance_waypoint_at_end [of "(NavigationSystem_init route)\<lparr>reached_destination := True\<rparr>"]
    advance_waypoint_at_end [of "NavigationSystem_init route"]
  by (simp add: NavigationSystem_init_def route_def)

section \<open>The states of a mission\<close>

text \<open>
  C10. The constructor puts the drone in \<open>TAKING_OFF\<close>, and neither a tick of
  \<^verbatim>\<open>update\<close>, nor \<^verbatim>\<open>confirm_match\<close>, nor \<^verbatim>\<open>initiate_landing\<close>, nor the loop's own
  assignment of \<open>SEARCHING\<close> ever stores \<open>IDLE\<close>: no drone of a mission is in \<open>IDLE\<close>.
\<close>

theorem idle_unreachable: "reachable d \<Longrightarrow> state d \<noteq> IDLE"
proof (induction rule: reachable.induct)
  case (constructed start_pos start_alt)
  show ?case by (simp add: Drone_init_def)
next
  case (ticked d g now dt nav d' nav')
  then show ?case using update_keeps_off_idle by blast
next
  case (match_confirmed d now)
  show ?case by (simp add: confirm_match_def)
next
  case (landing_initiated d)
  then show ?case by (simp add: initiate_landing_def)
next
  case (search_begun d)
  then show ?case by (simp add: begin_search_def)
qed

theorem idle_unreachable_witness:
  "reachable ((Drone_init (0, 0) 10)\<lparr>z := 5, battery := 9999 / 100\<rparr>) \<and>
   state ((Drone_init (0, 0) 10)\<lparr>z := 5, battery := 9999 / 100\<rparr>) \<noteq> IDLE"
proof -
  have r: "reachable ((Drone_init (0, 0) 10)\<lparr>z := 5, battery := 9999 / 100\<rparr>)"
    using reachable.ticked [OF reachable.constructed first_tick] .
  from r idle_unreachable [OF r] show ?thesis by simp
qed

section \<open>Rounding to a float\<close>

lemma pow2_powr: "pow2 k = 2 powr (of_int k)"
  by (simp add: pow2_def powr_int)

lemma pow2_mono: "j \<le> k \<Longrightarrow> pow2 j \<le> pow2 k"
  by (simp add: pow2_powr)

lemma pow2_pos: "0 < pow2 k"
  by (simp add: pow2_powr)

lemma find_exponent_eq:
  "pow2 k \<le> \<bar>x\<bar> \<Longrightarrow> \<bar>x\<bar> < pow2 (k + 1) \<Longrightarrow> - 1075 < k \<Longrightarrow> k \<le> int n - 1075 \<Longrightarrow>
   find_exponent n x = k"
proof (induction n)
  case 0
  then show ?case by simp
next
  case (Suc n)
  show ?case
  proof (cases "k = int (Suc n) - 1075")
    case True
    with Suc.prems(1) show ?thesis by simp
  next
    case False
    with Suc.prems(4) have le: "k + 1 \<le> int (Suc n) - 1075" by simp
    from pow2_mono [OF le] Suc.prems(2) have "\<not> pow2 (int (Suc n) - 1075) \<le> \<bar>x\<bar>" by simp
    moreover from le have "k \<le> int n - 1075" by simp
    ultimately show ?thesis using Suc.IH Suc.prems(1,2,3) by simp
  qed
qed

lemma float_exponent_eq:
  "pow2 k \<le> \<bar>x\<bar> \<Longrightarrow> \<bar>x\<bar> < pow2 (k + 1) \<Longrightarrow> - 1075 < k \<Longrightarrow> k \<le> 1025 \<Longrightarrow>
   float_exponent x = k"
  unfolding float_exponent_def by (rule find_exponent_eq) simp_all

lemma find_exponent_tiny: "\<bar>x\<bar> < pow2 (- 1074) \<Longrightarrow> find_exponent n x = - 1075"
proof (induction n)
  case 0
  show ?case by simp
next
  case (Suc n)
  have "pow2 (- 1074) \<le> pow2 (int (Suc n) - 1075)" by (rule pow2_mono) simp
  with Suc show ?case by simp
qed

lemma float_exponent_0: "float_exponent 0 = - 1075"
  unfolding float_exponent_def by (rule find_exponent_tiny) (simp add: pow2_pos)

lemma pow2_1024_pos: "\<not> pow2 1024 \<le> 0"
  using pow2_pos [of 1024] by simp

lemma round_0: "round_to_float 0 = Finite 0"
  by (simp add: round_to_float_def float_exponent_0 round_half_even_def Let_def pow2_1024_pos)

lemma e49: "float_exponent (1 / 49) = - 6"
  by (rule float_exponent_eq) (simp_all add: pow2_def)

lemma pow2_add: "pow2 (a + b) = pow2 a * pow2 b"
  by (simp add: pow2_powr powr_add)

lemma below_overflow:
  assumes "\<bar>q\<bar> \<le> 2 ^ 53" and "e \<le> 970"
  shows "\<bar>of_int q * pow2 e\<bar> < pow2 1024"
proof -
  have "\<bar>of_int q * pow2 e\<bar> = \<bar>of_int q\<bar> * pow2 e"
    using pow2_pos [of e] by (simp add: abs_mult)
  also have "\<dots> \<le> pow2 53 * pow2 e"
  proof -
    have "\<bar>(of_int q :: real)\<bar> \<le> 2 ^ 53"
      using assms(1) by (metis of_int_abs of_int_le_numeral_power_cancel_iff)
    then have "\<bar>(of_int q :: real)\<bar> \<le> pow2 53" by (simp add: pow2_def)
    then show ?thesis using pow2_pos [of e] by (simp add: mult_right_mono)
  qed
  also have "\<dots> = pow2 (53 + e)" by (simp add: pow2_add)
  also have "\<dots> \<le> pow2 1023" using assms(2) by (intro pow2_mono) simp
  also have "\<dots> < pow2 1024" by (simp add: pow2_powr)
  finally show ?thesis .
qed

lemma round_to_float_finite:
  assumes "float_exponent x = k" and "e = max k (- 1022) - 52"
    and "round_half_even (x / pow2 e) = q" and "\<bar>q\<bar> \<le> 2 ^ 53" and "e \<le> 970"
  shows "round_to_float x = Finite (of_int q * pow2 e)"
proof -
  from below_overflow [OF assms(4,5)]
  have "\<not> pow2 1024 \<le> of_int q * pow2 e" "\<not> of_int q * pow2 e \<le> - pow2 1024"
    by linarith+
  with assms(1,2,3) show ?thesis by (simp add: round_to_float_def Let_def)
qed



lemma find_exponent_top:
  "0 < n \<Longrightarrow> pow2 (int n - 1075) \<le> \<bar>x\<bar> \<Longrightarrow> find_exponent n x = int n - 1075"
  by (cases n) simp_all

lemma float_exponent_top: "pow2 1025 \<le> \<bar>x\<bar> \<Longrightarrow> float_exponent x = 1025"
  unfolding float_exponent_def using find_exponent_top [of 2100 x] by simp

lemma round_half_even_int: "round_half_even (of_int q) = q"
  by (simp add: round_half_even_def)

lemma round_to_float_exact:
  assumes "float_exponent x = k" and "e = max k (- 1022) - 52"
    and "x / pow2 e = of_int q" and "\<bar>q\<bar> \<le> 2 ^ 53" and "e \<le> 970"
  shows "round_to_float x = Finite x"
proof -
  have "round_half_even (x / pow2 e) = q" by (simp add: assms(3) round_half_even_int)
  from round_to_float_finite [OF assms(1,2) this assms(4,5)]
  have "round_to_float x = Finite (of_int q * pow2 e)" .
  moreover have "of_int q * pow2 e = x"
    using assms(3) pow2_pos [of e] by (simp add: field_simps)
  ultimately show ?thesis by simp
qed

lemma round_1: "round_to_float 1 = Finite 1"
proof -
  have e: "float_exponent 1 = 0" by (rule float_exponent_eq) (simp_all add: pow2_def)
  show ?thesis
    by (rule round_to_float_exact [OF e, of "- 52" "2 ^ 52"]) (simp_all add: pow2_def)
qed

lemma round_49: "round_to_float 49 = Finite 49"
proof -
  have e: "float_exponent 49 = 5" by (rule float_exponent_eq) (simp_all add: pow2_def)
  show ?thesis
    by (rule round_to_float_exact [OF e, of "- 47" "49 * 2 ^ 47"]) (simp_all add: pow2_def)
qed

lemma r49b: "round_to_float (5882252574524729 / 2 ^ 58 * 49) = Finite ((2 ^ 53 - 1) / 2 ^ 53)"
proof -
  have e: "float_exponent (5882252574524729 / 2 ^ 58 * 49) = - 1"
    by (rule float_exponent_eq) (simp_all add: pow2_def)
  show ?thesis
    using round_to_float_finite [OF e, of "- 53" "2 ^ 53 - 1"]
    by (simp add: pow2_def round_half_even_def)
qed

lemma round_minus_1: "round_to_float (- 1) = Finite (- 1)"
proof -
  have e: "float_exponent (- 1) = 0" by (rule float_exponent_eq) (simp_all add: pow2_def)
  show ?thesis
    by (rule round_to_float_exact [OF e, of "- 52" "- (2 ^ 52)"]) (simp_all add: pow2_def)
qed

lemma round_1_49: "round_to_float (1 / 49) = Finite (5882252574524729 / 2 ^ 58)"
  using round_to_float_finite [of "1 / 49" "- 6" "- 58" 5882252574524729]
  by (simp add: e49 pow2_def round_half_even_def)

lemma round_minus_1_49: "round_to_float (- (1 / 49)) = Finite (- (5882252574524729 / 2 ^ 58))"
proof -
  have e: "float_exponent (- (1 / 49)) = - 6"
    by (rule float_exponent_eq) (simp_all add: pow2_def)
  show ?thesis
    using round_to_float_finite [OF e, of "- 58" "- 5882252574524729"]
    by (simp add: pow2_def round_half_even_def)
qed

lemma round_minus_product:
  "round_to_float (- (5882252574524729 / 2 ^ 58 * 49)) = Finite (- ((2 ^ 53 - 1) / 2 ^ 53))"
proof -
  have e: "float_exponent (- (5882252574524729 / 2 ^ 58 * 49)) = - 1"
    by (rule float_exponent_eq) (simp_all add: pow2_def)
  show ?thesis
    using round_to_float_finite [OF e, of "- 53" "- (2 ^ 53 - 1)"]
    by (simp add: pow2_def round_half_even_def)
qed

lemma round_smallest: "round_to_float (1 / 2 ^ 1074) = Finite (1 / 2 ^ 1074)"
proof -
  have e: "float_exponent (1 / 2 ^ 1074) = - 1074"
    by (rule float_exponent_eq) (simp_all add: pow2_def)
  show ?thesis
    by (rule round_to_float_exact [OF e, of "- 1074" 1]) (simp_all add: pow2_def)
qed

lemma round_half_even_ge_floor: "\<lfloor>r\<rfloor> \<le> round_half_even r"
  by (simp add: round_half_even_def Let_def)

lemma round_to_float_overflow:
  assumes "pow2 1025 \<le> x"
  shows "round_to_float x = PosInf"
proof -
  have x: "0 < x" using assms pow2_pos [of 1025] by linarith
  then have e: "float_exponent x = 1025"
    using assms by (intro float_exponent_top) simp
  have "pow2 52 * pow2 973 \<le> x" using assms pow2_add [of 52 973] by simp
  then have "pow2 52 \<le> x / pow2 973"
    using pow2_pos [of 973] by (simp add: pos_le_divide_eq)
  moreover have "pow2 52 = of_int (2 ^ 52)" by (simp add: pow2_def)
  ultimately have "(2 ^ 52 :: int) \<le> \<lfloor>x / pow2 973\<rfloor>" by (simp add: le_floor_iff)
  with round_half_even_ge_floor [of "x / pow2 973"]
  have "(2 ^ 52 :: int) \<le> round_half_even (x / pow2 973)" by linarith
  then have "(of_int (2 ^ 52) :: real) \<le> of_int (round_half_even (x / pow2 973))"
    by (rule of_int_le_iff [THEN iffD2])
  then have "pow2 52 \<le> of_int (round_half_even (x / pow2 973))" by (simp add: pow2_def)
  then have "pow2 52 * pow2 973 \<le> of_int (round_half_even (x / pow2 973)) * pow2 973"
    using pow2_pos [of 973] by (simp add: mult_right_mono)
  moreover have "pow2 1024 \<le> pow2 52 * pow2 973"
    using pow2_mono [of 1024 1025] pow2_add [of 52 973] by simp
  ultimately have "pow2 1024 \<le> of_int (round_half_even (x / pow2 973)) * pow2 973"
    by linarith
  then show ?thesis by (simp add: round_to_float_def e Let_def)
qed

lemma round_overflow: "round_to_float (2 ^ 1074) = PosInf"
  by (rule round_to_float_overflow) (simp add: pow2_def)

section \<open>Geographic position to map pixel\<close>

lemma float_truediv_no_zero_division:
  "\<not> float_is_zero b \<Longrightarrow> float_truediv a b \<noteq> Inl ZeroDivisionError"
  by (cases a; cases b) (simp_all add: float_is_zero_def)

lemma float_truediv_returns:
  "\<not> float_is_zero b \<Longrightarrow> \<exists>q. float_truediv a b = Inr q"
  by (cases a; cases b) (simp_all add: float_is_zero_def)

lemma interpolate_no_zero_division:
  "\<not> float_is_zero extent \<Longrightarrow> interpolate a b extent pixels \<noteq> Inl ZeroDivisionError"
  using float_truediv_returns [of extent "float_sub a b"]
  by (auto simp: interpolate_def float_of_int_def split: sum.splits pyfloat.splits)

lemma int_of_float_no_zero_division: "int_of_float a \<noteq> Inl ZeroDivisionError"
  by (cases a) simp_all

lemma float_of_int_49: "float_of_int 49 = Inr (Finite 49)"
  by (simp add: float_of_int_def round_49)

lemma interpolate_east:
  "interpolate (Finite 1) (Finite 0) (Finite 49) 49 = Inr (Finite ((2 ^ 53 - 1) / 2 ^ 53))"
  using r49b by (simp add: interpolate_def round_1 round_1_49 float_of_int_49)

lemma interpolate_west:
  "interpolate (Finite (- 1)) (Finite 0) (Finite 49) 49 = Inr (Finite (- ((2 ^ 53 - 1) / 2 ^ 53)))"
  using round_minus_product
  by (simp add: interpolate_def round_minus_1 round_minus_1_49 float_of_int_49)

lemma interpolate_north:
  "interpolate (Finite 49) (Finite 48) (Finite 49) 49 = Inr (Finite ((2 ^ 53 - 1) / 2 ^ 53))"
  using r49b by (simp add: interpolate_def round_1 round_1_49 float_of_int_49)

text \<open>
  C9, as the code has it. \<^verbatim>\<open>latlon_to_screen\<close> never raises a division error. When the
  bounding box has no extent in longitude or in latitude it returns the centre of the map,
  \<open>(width // 2, height // 2)\<close>. When both extents are non-zero and the two interpolated
  values \<^verbatim>\<open>((lon - min_lon) / lon_range) * map_width\<close> and
  \<^verbatim>\<open>((max_lat - lat) / lat_range) * map_height\<close>, computed in binary64, are finite, it
  returns them truncated towards zero: the floor of a value that is not negative, the
  ceiling of a negative one.
\<close>

theorem latlon_to_screen_cases:
  assumes "bbox env = (min_lon, min_lat, max_lon, max_lat)" and "map_size env = (w, h)"
  shows "(float_is_zero (float_sub max_lon min_lon) \<or> float_is_zero (float_sub max_lat min_lat)
            \<longrightarrow> latlon_to_screen env la lo = Inr (w div 2, h div 2)) \<and>
         latlon_to_screen env la lo \<noteq> Inl ZeroDivisionError \<and>
         (\<not> float_is_zero (float_sub max_lon min_lon) \<and>
          \<not> float_is_zero (float_sub max_lat min_lat) \<and>
          interpolate lo min_lon (float_sub max_lon min_lon) w = Inr (Finite x) \<and>
          interpolate max_lat la (float_sub max_lat min_lat) h = Inr (Finite y)
            \<longrightarrow> latlon_to_screen env la lo =
                  Inr (if 0 \<le> x then \<lfloor>x\<rfloor> else \<lceil>x\<rceil>, if 0 \<le> y then \<lfloor>y\<rfloor> else \<lceil>y\<rceil>))"
proof -
  have a: "float_is_zero (float_sub max_lon min_lon) \<or> float_is_zero (float_sub max_lat min_lat)
            \<longrightarrow> latlon_to_screen env la lo = Inr (w div 2, h div 2)"
    using assms by (simp add: latlon_to_screen_def Let_def)
  have b: "latlon_to_screen env la lo \<noteq> Inl ZeroDivisionError"
  proof (cases "float_is_zero (float_sub max_lon min_lon) \<or>
                float_is_zero (float_sub max_lat min_lat)")
    case True
    with a show ?thesis by simp
  next
    case False
    with assms interpolate_no_zero_division [of "float_sub max_lon min_lon" lo min_lon w]
      interpolate_no_zero_division [of "float_sub max_lat min_lat" max_lat la h]
    show ?thesis
      by (auto simp: latlon_to_screen_def Let_def int_of_float_no_zero_division
          split: sum.splits)
  qed
  have c: "\<not> float_is_zero (float_sub max_lon min_lon) \<and>
          \<not> float_is_zero (float_sub max_lat min_lat) \<and>
          interpolate lo min_lon (float_sub max_lon min_lon) w = Inr (Finite x) \<and>
          interpolate max_lat la (float_sub max_lat min_lat) h = Inr (Finite y)
            \<longrightarrow> latlon_to_screen env la lo =
                  Inr (if 0 \<le> x then \<lfloor>x\<rfloor> else \<lceil>x\<rceil>, if 0 \<le> y then \<lfloor>y\<rfloor> else \<lceil>y\<rceil>)"
    using assms by (simp add: latlon_to_screen_def Let_def py_int_def)
  from a b c show ?thesis by blast
qed

text \<open>
  On the line map the centre is returned. On the square map the point one degree east of
  the western edge and one degree south of the northern edge is interpolated to
  \<open>(1 / 49) * 49\<close>, which in binary64 is \<open>1 - 2 ^ (- 53)\<close>, and so lands on pixel
  \<open>(0, 0)\<close>; the point one degree west of the western edge is interpolated to the
  negative of that value, truncated to 0 and not floored to - 1.
\<close>

theorem latlon_to_screen_cases_witness:
  "latlon_to_screen line_map (Finite 48) (Finite 1) = Inr (750, 500) \<and>
   latlon_to_screen square_map (Finite 48) (Finite 1) = Inr (0, 0) \<and>
   latlon_to_screen square_map (Finite 48) (Finite (- 1)) = Inr (0, 0)"
proof -
  have l: "latlon_to_screen line_map (Finite 48) (Finite 1) = Inr (750, 500)"
    using latlon_to_screen_cases [of line_map "Finite 49" "Finite 0" "Finite 49" "Finite 49"
        1500 1001 "Finite 48" "Finite 1"]
    by (simp add: line_map_def round_0 float_is_zero_def)
  have e: "latlon_to_screen square_map (Finite 48) (Finite 1) = Inr (0, 0)"
    using latlon_to_screen_cases [of square_map "Finite 0" "Finite 0" "Finite 49" "Finite 49"
        49 49 "Finite 48" "Finite 1" "(2 ^ 53 - 1) / 2 ^ 53" "(2 ^ 53 - 1) / 2 ^ 53"]
    by (simp add: square_map_def round_49 float_is_zero_def interpolate_east interpolate_north)
  have w: "latlon_to_screen square_map (Finite 48) (Finite (- 1)) = Inr (0, 0)"
    using latlon_to_screen_cases [of square_map "Finite 0" "Finite 0" "Finite 49" "Finite 49"
        49 49 "Finite 48" "Finite (- 1)" "- ((2 ^ 53 - 1) / 2 ^ 53)" "(2 ^ 53 - 1) / 2 ^ 53"]
    by (simp add: square_map_def round_49 float_is_zero_def interpolate_west interpolate_north)
  from l e w show ?thesis by simp
qed

text \<open>
  The claim C9 as stated fails: a bounding box of non-zero extent need not give a
  result. On the thin map both extents are non-zero; the quotient \<open>1 / 2 ^ (- 1074)\<close>
  overflows to infinity, and \<^verbatim>\<open>int\<close> of the infinite \<open>screen_x\<close> raises
  \<^verbatim>\<open>OverflowError\<close>.
\<close>

theorem latlon_to_screen_overflow:
  "float_sub (Finite (1 / 2 ^ 1074)) (Finite 0) = Finite (1 / 2 ^ 1074) \<and>
   float_sub (Finite 1) (Finite 0) = Finite 1 \<and>
   latlon_to_screen thin_map (Finite 0) (Finite 1) = Inl OverflowError"
proof -
  have a: "float_sub (Finite (1 / 2 ^ 1074)) (Finite 0) = Finite (1 / 2 ^ 1074)"
    using round_smallest by simp
  have b: "float_sub (Finite 1) (Finite 0) = Finite 1" by (simp add: round_1)
  have x: "interpolate (Finite 1) (Finite 0) (Finite (1 / 2 ^ 1074)) 49 = Inr PosInf"
    using round_overflow by (simp add: interpolate_def round_1 float_of_int_49)
  have y: "interpolate (Finite 1) (Finite 0) (Finite 1) 49 = Inr (Finite 49)"
    by (simp add: interpolate_def round_1 float_of_int_49 round_49)
  have "latlon_to_screen thin_map (Finite 0) (Finite 1) = Inl OverflowError"
    using a b x y by (simp add: latlon_to_screen_def thin_map_def Let_def float_is_zero_def)
  with a b show ?thesis by simp
qed

section \<open>The ratio test and the confidence of a match\<close>

lemma ratio_test_pairs:
  "list_all (\<lambda>e. length e = 2) ms \<Longrightarrow>
   ratio_test ms good =
     Inr (good @ map hd (filter (\<lambda>e. distance (e ! 0) < 7 / 10 * distance (e ! 1)) ms))"
proof (induction ms arbitrary: good)
  case Nil
  show ?case by simp
next
  case (Cons e es)
  from Cons.prems obtain m n where e: "e = [m, n]"
    by (cases e; simp; cases "tl e"; auto)
  from Cons.prems have "list_all (\<lambda>e. length e = 2) es" by simp
  from Cons.IH [OF this] e show ?case by simp
qed

text \<open>
  C7. Take a vision system built by the constructor, a reference index \<open>i\<close> in range whose
  snapshot has keypoints and descriptors, a live image with descriptors, and a matcher that
  returns the two nearest matches \<open>[best, second]\<close> for every reference descriptor. Then
  \<^verbatim>\<open>match_waypoint\<close> returns; the accepted matches are exactly those whose best distance is
  strictly below 0.7 times the second-best distance; the confidence is their number divided
  by 100; and the success flag is true iff the confidence is at least 0.25.
  (ORB yields descriptors only together with keypoints, so the source's guard
  \<^verbatim>\<open>total_target_kp > 0\<close> holds whenever the descriptors exist.)
\<close>

theorem match_waypoint_ratio_confidence:
  assumes "0 \<le> i" and "i < int (length snapshots)"
    and "detectAndCompute cv (snapshots ! nat i) = (kp_target, Some des_target)"
    and "kp_target \<noteq> []"
    and "snd (detectAndCompute cv camera_np) = Some des_camera"
    and "list_all (\<lambda>e. length e = 2) (knnMatch cv des_target des_camera)"
    and "confidence =
           real (length (filter (\<lambda>e. distance (e ! 0) < 7 / 10 * distance (e ! 1))
                           (knnMatch cv des_target des_camera))) / 100"
  shows "match_waypoint cv (VisionSystem_init cv snapshots) camera_np i
           = Inr (confidence \<ge> 25 / 100, confidence)"
proof -
  have n: "nat i < length snapshots" using assms(1,2) by linarith
  have f: "py_getitem (waypoint_features (VisionSystem_init cv snapshots)) i
             = Inr \<lparr> kp = kp_target, des = Some des_target \<rparr>"
    using assms(1,2,3) n
    by (simp add: py_getitem_def VisionSystem_init_def preprocess_snapshots_def Let_def)
  let ?n = "length (filter (\<lambda>e. distance (e ! 0) < 7 / 10 * distance (e ! 1))
                      (knnMatch cv des_target des_camera))"
  have "match_waypoint cv (VisionSystem_init cv snapshots) camera_np i
          = Inr (real ?n / 100 \<ge> 25 / 100, real ?n / 100)"
    using assms(2,4,5) f ratio_test_pairs [OF assms(6), of "[]"]
    by (simp add: match_waypoint_def VisionSystem_init_def preprocess_snapshots_def Let_def)
  then show ?thesis by (simp only: assms(7))
qed

lemma test_cv_knn:
  "knnMatch test_cv (replicate 25 [69] @ [[70]]) [[2]]
     = replicate 25 [\<lparr> distance = 69, queryIdx = 0, trainIdx = 0 \<rparr>,
                     \<lparr> distance = 100, queryIdx = 0, trainIdx = 1 \<rparr>]
       @ [[\<lparr> distance = 70, queryIdx = 0, trainIdx = 0 \<rparr>,
           \<lparr> distance = 100, queryIdx = 0, trainIdx = 1 \<rparr>]]"
  by (simp add: test_cv_def)

theorem match_waypoint_ratio_confidence_witness:
  "match_waypoint test_cv (VisionSystem_init test_cv [1]) 2 0 = Inr (True, 25 / 100)"
  using match_waypoint_ratio_confidence [of 0 "[1]" test_cv "replicate 26 (0, 0)"
      "replicate 25 [69] @ [[70]]" 2 "[[2]]" "25 / 100"]
  by (simp add: test_cv_knn list_all_length nth_append) (simp add: test_cv_def)

section \<open>Arriving on the home-only route\<close>

lemma bearing_plane: "calculate_bearing plane a b c d = 0"
  by (simp add: calculate_bearing_def plane_def degrees_def py_fmod_def Let_def)

text \<open>
  C1. \<^verbatim>\<open>NavigationSystem.update\<close> does not write \<open>reached_destination\<close>. On the
  one-waypoint route that \<^verbatim>\<open>set_new_route\<close> installs the flag starts false, and an update at
  any position, the waypoint itself included, returns with the distance recorded and the
  flag still false. A drone in \<open>RETURN_HOME\<close> that is given this navigator stays in
  \<open>RETURN_HOME\<close>: the home route is never reached and the landing is never initiated.
  What does hold is the second half: with the flag true, the next tick of a drone in
  \<open>RETURN_HOME\<close> puts it in \<open>LANDING\<close>.
\<close>

theorem home_route_never_reached:
  "(\<exists>nav' d'. nav_update g la lo (set_new_route [w] nav) = Inr nav' \<and>
      distance_to_wp nav' = Some (geodesic_meters g (la, lo) (wp_lat w, wp_lon w)) \<and>
      \<not> reached_destination nav' \<and>
      update g now dt (d\<lparr>state := RETURN_HOME\<rparr>, nav') = Inr (d', nav') \<and>
      state d' = RETURN_HOME) \<and>
   (\<exists>d'. update g now dt (d\<lparr>state := RETURN_HOME\<rparr>, nav\<lparr>reached_destination := True\<rparr>)
            = Inr (d', nav\<lparr>reached_destination := True\<rparr>) \<and>
          state d' = LANDING)"
  by (simp add: nav_update_def set_new_route_def py_getitem_def Let_def update_def
      update_return_home_def state_physics_and_battery state_move_along_heading
      initiate_landing_def split: option.splits)

section \<open>Braking on the approach\<close>

lemma homeward_nav:
  "nav_update plane (- 15) 0 (set_new_route [home] (NavigationSystem_init route)) = Inr homeward"
  by (simp add: nav_update_def set_new_route_def py_getitem_def Let_def NavigationSystem_init_def
      bearing_plane home_def homeward_def) (simp add: plane_def)

text \<open>
  C2. The braking policy is in the \<open>NAVIGATING\<close> branch only. With the target 15 m away,
  cruise velocity 15 and \<open>dt\<close> = 0.5, a tick in \<open>NAVIGATING\<close> moves the drone
  (3 + 12 * (15 / 30)) * 0.5 = 4.5 m; the same tick in \<open>RETURN_HOME\<close> moves it
  15 * 0.5 = 7.5 m, the cruise velocity unbraked. (In the plane a move adds to the latitude.)
\<close>

theorem return_home_without_braking:
  "nav_update plane (- 15) 0 (set_new_route [home] (NavigationSystem_init route)) = Inr homeward \<and>
   map_option lat (returned_drone
       (update plane 0 (1 / 2) (south_of_home\<lparr>state := NAVIGATING\<rparr>, homeward)))
     = Some (- 15 + 9 * (1 / 2)) \<and>
   map_option lat (returned_drone
       (update plane 0 (1 / 2) (south_of_home\<lparr>state := RETURN_HOME\<rparr>, homeward)))
     = Some (- 15 + 15 * (1 / 2))"
proof -
  have n: "map_option lat (returned_drone
       (update plane 0 (1 / 2) (south_of_home\<lparr>state := NAVIGATING\<rparr>, homeward)))
     = Some (- 15 + 9 * (1 / 2))"
    by (simp add: update_def update_navigating_def homeward_def south_of_home_def Drone_init_def
        Let_def move_along_heading_def physics_and_battery_def returned_drone_def plane_def)
  have r: "map_option lat (returned_drone
       (update plane 0 (1 / 2) (south_of_home\<lparr>state := RETURN_HOME\<rparr>, homeward)))
     = Some (- 15 + 15 * (1 / 2))"
    by (simp add: update_def update_return_home_def homeward_def south_of_home_def Drone_init_def
        Let_def move_along_heading_def physics_and_battery_def returned_drone_def plane_def)
  from homeward_nav n r show ?thesis by simp
qed

section \<open>The index given to the matcher\<close>

text \<open>
  C5. \<^verbatim>\<open>match_waypoint\<close> tests the index against the length only from above. The index
  -1 passes the test: with no reference feature set the indexing raises
  \<^verbatim>\<open>IndexError\<close>, and with one it selects the last reference and matches against it, here
  with success and confidence 0.25, where a no-match was to be returned.
\<close>

theorem match_waypoint_negative_index:
  "match_waypoint cv (VisionSystem_init cv []) camera_np (- 1) = Inl IndexError \<and>
   match_waypoint test_cv (VisionSystem_init test_cv [1]) 2 (- 1) = Inr (True, 25 / 100)"
proof -
  have a: "match_waypoint cv (VisionSystem_init cv []) camera_np (- 1) = Inl IndexError"
    by (simp add: match_waypoint_def VisionSystem_init_def preprocess_snapshots_def py_getitem_def)
  have k: "list_all (\<lambda>e. length e = 2) (knnMatch test_cv (replicate 25 [69] @ [[70]]) [[2]])"
    by (simp add: test_cv_knn list_all_length nth_append)
  have b: "match_waypoint test_cv (VisionSystem_init test_cv [1]) 2 (- 1) = Inr (True, 25 / 100)"
    using ratio_test_pairs [OF k, of "[]"]
    by (simp add: match_waypoint_def VisionSystem_init_def preprocess_snapshots_def py_getitem_def
        Let_def test_cv_knn) (simp add: test_cv_def)
  from a b show ?thesis by simp
qed

section \<open>The battery on the tick that ends a search segment\<close>

lemma searcher_tick1:
  "update plane 1000 (1 / 2) (searcher, nav)
     = Inr (searcher\<lparr>total_search_time := 1 / 2, search_start_time := 1000,
                     search_radius := Some (11 / 2), search_angle := 30,
                     lat := 5 / 2, battery := 19999 / 200\<rparr>, nav)"
  by (simp add: update_def update_searching_def searcher_def Drone_init_def Let_def
      move_along_heading_def physics_and_battery_def bearing_plane)
     (simp add: plane_def)

lemma searcher_tick2:
  "update plane (2011 / 2) (1 / 2)
      (searcher\<lparr>total_search_time := 1 / 2, search_start_time := 1000,
                search_radius := Some (11 / 2), search_angle := 30,
                lat := 5 / 2, battery := 19999 / 200\<rparr>, nav)
     = Inr (searcher\<lparr>total_search_time := 1, search_start_time := 0,
                     search_radius := Some 6, search_angle := 60,
                     lat := 5, battery := 19999 / 200,
                     state := HOVERING, hover_start_time := Some (2011 / 2)\<rparr>, nav)"
  by (simp add: update_def update_searching_def searcher_def Drone_init_def Let_def
      move_along_heading_def physics_and_battery_def bearing_plane)
     (simp add: plane_def)

text \<open>
  C6. The tick that ends a search segment leaves \<^verbatim>\<open>update\<close> through \<^verbatim>\<open>return\<close>,
  before the battery is drained. Two ticks of half a second from a full battery, the
  second one ending the segment, drain 0.01 * 0.5 once: the battery is 99.995, not 99.99,
  and the drone, now in \<open>HOVERING\<close>, is not landed.
\<close>

theorem segment_end_skips_battery:
  "map_option battery (returned_drone
       (run_ticks plane [(1000, 1 / 2), (2011 / 2, 1 / 2)] (searcher, NavigationSystem_init route)))
     = Some (100 - 1 / 200) \<and>
   map_option state (returned_drone
       (run_ticks plane [(1000, 1 / 2), (2011 / 2, 1 / 2)] (searcher, NavigationSystem_init route)))
     = Some HOVERING"
  by (simp add: searcher_tick1 searcher_tick2 returned_drone_def)

section \<open>The spiral of a search\<close>

lemma radius_physics_and_battery: "search_radius (physics_and_battery dt d) = search_radius d"
  by (simp add: physics_and_battery_def Let_def)

lemma start_physics_and_battery: "search_start_time (physics_and_battery dt d) = search_start_time d"
  by (simp add: physics_and_battery_def Let_def)

lemma hover_physics_and_battery: "hover_start_time (physics_and_battery dt d) = hover_start_time d"
  by (simp add: physics_and_battery_def Let_def)

lemma in_segment_physics: "in_segment r (physics_and_battery dt d) = in_segment r d"
  by (simp add: in_segment_def radius_physics_and_battery start_physics_and_battery
      hover_physics_and_battery state_physics_and_battery cong: DroneState.case_cong)

lemma searching_tick:
  assumes "state d = SEARCHING" and "search_start_time d \<noteq> 0" and "search_radius d = Some r"
  shows "\<exists>b d' nav'. update_searching g now dt (d, nav) = Inr (b, d', nav') \<and>
           search_angle d' = search_angle d + 60 * dt \<and>
           search_radius d' = Some (if r < max_search_radius d then r + dt else r) \<and>
           (state d' = SEARCHING \<and> search_start_time d' \<noteq> 0 \<or>
            state d' = HOVERING \<and> hover_start_time d' \<noteq> None \<or>
            state d' = RETURN_HOME)"
  using assms by (auto simp: update_searching_def Let_def move_along_heading_def)

lemma in_segment_step:
  assumes "in_segment r d" and "0 \<le> dt"
  shows "\<exists>d' nav'. update g now dt (d, nav) = Inr (d', nav') \<and> in_segment r d'"
proof (cases "state d")
  case SEARCHING
  from assms(1) SEARCHING obtain r0 where r0: "search_radius d = Some r0" "r \<le> r0"
    and s: "search_start_time d \<noteq> 0"
    by (auto simp: in_segment_def split: option.splits)
  from searching_tick [OF SEARCHING s r0(1), of g now dt nav]
  obtain b d' nav' where u: "update_searching g now dt (d, nav) = Inr (b, d', nav')"
    and r': "search_radius d' = Some (if r0 < max_search_radius d then r0 + dt else r0)"
    and st: "state d' = SEARCHING \<and> search_start_time d' \<noteq> 0 \<or>
            state d' = HOVERING \<and> hover_start_time d' \<noteq> None \<or>
            state d' = RETURN_HOME"
    by blast
  from r' r0(2) assms(2) st have i: "in_segment r d'"
    by (auto simp: in_segment_def)
  show ?thesis
  proof (cases b)
    case True
    with u SEARCHING i show ?thesis by (simp add: update_def)
  next
    case False
    with u SEARCHING i show ?thesis by (simp add: update_def in_segment_physics)
  qed
next
  case HOVERING
  with assms(1) obtain t where "hover_start_time d = Some t"
    by (auto simp: in_segment_def)
  with HOVERING assms(1) show ?thesis
    by (simp add: update_def update_hovering_def in_segment_physics)
next
  case RETURN_HOME
  with assms(1) have "in_segment r (update_return_home g dt nav d)"
    by (auto simp: in_segment_def update_return_home_def initiate_landing_def
        move_along_heading_def Let_def split: option.splits)
  with RETURN_HOME show ?thesis by (simp add: update_def in_segment_physics)
next
  case LANDING
  with assms(1) have "in_segment r (update_landing dt d)"
    by (auto simp: in_segment_def update_landing_def Let_def split: option.splits)
  with LANDING show ?thesis by (simp add: update_def in_segment_physics)
next
  case LANDED
  with assms(1) show ?thesis by (simp add: update_def)
qed (use assms(1) in \<open>simp_all add: in_segment_def\<close>)

lemma in_segment_run:
  "in_segment r d \<Longrightarrow> list_all (\<lambda>t. 0 \<le> snd t) ticks \<Longrightarrow>
   \<exists>d' nav'. run_ticks g ticks (d, nav) = Inr (d', nav') \<and> in_segment r d'"
proof (induction ticks arbitrary: d nav)
  case Nil
  then show ?case by simp
next
  case (Cons t ticks)
  from Cons.prems have t: "0 \<le> snd t" and ts: "list_all (\<lambda>t. 0 \<le> snd t) ticks" by simp_all
  from in_segment_step [OF Cons.prems(1) t, of g "fst t" nav]
  obtain d1 nav1 where u: "update g (fst t) (snd t) (d, nav) = Inr (d1, nav1)"
    and i: "in_segment r d1" by blast
  from Cons.IH [OF i ts, of nav1] u show ?case by simp
qed

lemma first_search_tick:
  assumes "state d = SEARCHING" and "search_start_time d = 0"
  shows "\<exists>d' nav'. update g now dt (d, nav) = Inr (d', nav') \<and>
           search_radius d' = Some (if 5 < max_search_radius d then 5 + dt else 5) \<and>
           search_angle d' = 60 * dt"
  using assms
  by (simp add: update_def update_searching_def Let_def move_along_heading_def
      physics_and_battery_def)

text \<open>
  C3, as the code has it. Take a drone in \<open>SEARCHING\<close> whose segment has started, with
  spiral radius \<open>r\<close>. Every sequence of ticks with non-negative \<open>dt\<close> returns, and the
  radius at its end is at least \<open>r\<close>. A tick that starts with the radius at or above the
  configured maximum leaves the radius as it is. A tick adds 60 * \<open>dt\<close> to the spiral
  angle; the angle is not reduced modulo 360. Each new segment restarts the spiral: on a
  drone in \<open>SEARCHING\<close> whose segment has not started, whatever its radius and angle
  were, the tick sets the radius to 5 and the angle to 0 and then grows them by its own
  \<open>dt\<close>, to 5 + \<open>dt\<close> (5 being below the maximum) and 60 * \<open>dt\<close>.
\<close>

theorem spiral_within_segment:
  assumes "state d = SEARCHING" and "search_start_time d \<noteq> 0" and "search_radius d = Some r"
  shows "(list_all (\<lambda>t. 0 \<le> snd t) ticks \<longrightarrow>
            (\<exists>d' nav' r'. run_ticks g ticks (d, nav) = Inr (d', nav') \<and>
               search_radius d' = Some r' \<and> r \<le> r')) \<and>
         (\<exists>d' nav'. update g now dt (d, nav) = Inr (d', nav') \<and>
            search_angle d' = search_angle d + 60 * dt \<and>
            (max_search_radius d \<le> r \<longrightarrow> search_radius d' = Some r)) \<and>
         (state d0 = SEARCHING \<and> search_start_time d0 = 0 \<longrightarrow>
            (\<exists>d' nav'. update g now dt (d0, nav) = Inr (d', nav') \<and>
               search_radius d' = Some (if 5 < max_search_radius d0 then 5 + dt else 5) \<and>
               search_angle d' = 60 * dt))"
proof -
  have i: "in_segment r d" using assms by (simp add: in_segment_def)
  have a: "list_all (\<lambda>t. 0 \<le> snd t) ticks \<longrightarrow>
            (\<exists>d' nav' r'. run_ticks g ticks (d, nav) = Inr (d', nav') \<and>
               search_radius d' = Some r' \<and> r \<le> r')"
  proof
    assume "list_all (\<lambda>t. 0 \<le> snd t) ticks"
    from in_segment_run [OF i this, of g nav]
    show "\<exists>d' nav' r'. run_ticks g ticks (d, nav) = Inr (d', nav') \<and>
               search_radius d' = Some r' \<and> r \<le> r'"
      by (auto simp: in_segment_def split: option.splits)
  qed
  from searching_tick [OF assms, of g now dt nav]
  obtain b d' nav' where u: "update_searching g now dt (d, nav) = Inr (b, d', nav')"
    and an: "search_angle d' = search_angle d + 60 * dt"
    and r': "search_radius d' = Some (if r < max_search_radius d then r + dt else r)"
    by blast
  have b: "\<exists>d' nav'. update g now dt (d, nav) = Inr (d', nav') \<and>
            search_angle d' = search_angle d + 60 * dt \<and>
            (max_search_radius d \<le> r \<longrightarrow> search_radius d' = Some r)"
    using u an r' assms(1)
    by (cases b) (auto simp: update_def physics_and_battery_def Let_def)
  have c: "state d0 = SEARCHING \<and> search_start_time d0 = 0 \<longrightarrow>
            (\<exists>d' nav'. update g now dt (d0, nav) = Inr (d', nav') \<and>
               search_radius d' = Some (if 5 < max_search_radius d0 then 5 + dt else 5) \<and>
               search_angle d' = 60 * dt)"
    using first_search_tick [of d0 g now dt nav] by blast
  from a b c show ?thesis by blast
qed

theorem spiral_within_segment_witness:
  "(\<exists>d' nav' r'. run_ticks plane [(1001, 1), (1002, 1)] (in_first_segment, NavigationSystem_init route)
        = Inr (d', nav') \<and> search_radius d' = Some r' \<and> 11 / 2 \<le> r') \<and>
   (\<exists>d' nav'. update plane 1003 (1 / 5) (long_searcher, NavigationSystem_init route) = Inr (d', nav') \<and>
        search_angle d' = 180 + 60 * (1 / 5) \<and> search_radius d' = Some 20) \<and>
   (\<exists>d' nav'. update plane 1006 (1 / 2) (begin_search after_segment, NavigationSystem_init route)
        = Inr (d', nav') \<and> search_radius d' = Some (5 + 1 / 2) \<and> search_angle d' = 60 * (1 / 2))"
proof -
  have a: "\<exists>d' nav' r'. run_ticks plane [(1001, 1), (1002, 1)]
        (in_first_segment, NavigationSystem_init route)
        = Inr (d', nav') \<and> search_radius d' = Some r' \<and> 11 / 2 \<le> r'"
    using spiral_within_segment [of in_first_segment "11 / 2" "[(1001, 1), (1002, 1)]" plane
        "NavigationSystem_init route" 1001 1 searcher]
    by (simp add: in_first_segment_def searcher_def Drone_init_def)
  have b: "\<exists>d' nav'. update plane 1003 (1 / 5) (long_searcher, NavigationSystem_init route)
        = Inr (d', nav') \<and> search_angle d' = 180 + 60 * (1 / 5) \<and> search_radius d' = Some 20"
    using spiral_within_segment [of long_searcher 20 "[]" plane "NavigationSystem_init route" 1003 "1 / 5"
        searcher]
    by (simp add: long_searcher_def searcher_def Drone_init_def)
  have c: "\<exists>d' nav'. update plane 1006 (1 / 2)
        (begin_search after_segment, NavigationSystem_init route)
        = Inr (d', nav') \<and> search_radius d' = Some (5 + 1 / 2) \<and> search_angle d' = 60 * (1 / 2)"
    using spiral_within_segment [of long_searcher 20 "[]" plane "NavigationSystem_init route" 1006 "1 / 2"
        "begin_search after_segment"]
    by (simp add: long_searcher_def after_segment_def begin_search_def searcher_def
        Drone_init_def)
  from a b c show ?thesis by blast
qed

text \<open>
  The claim C3 as stated fails. One tick with \<open>dt\<close> = 16 from the start of a search takes
  the radius to 21, above the maximum of 20, and the angle to 960, which is not below 360.
  And the radius does decrease between segments: a finished segment leaves it at 6, and the
  first tick after the loop has put the drone back in \<open>SEARCHING\<close> restarts it at 5 and
  leaves it at 5.5.
\<close>

theorem spiral_counterexample:
  "map_option search_radius (returned_drone
       (update plane 1000 16 (searcher, NavigationSystem_init route))) = Some (Some 21) \<and>
   map_option max_search_radius (returned_drone
       (update plane 1000 16 (searcher, NavigationSystem_init route))) = Some 20 \<and>
   map_option search_angle (returned_drone
       (update plane 1000 16 (searcher, NavigationSystem_init route))) = Some 960 \<and>
   returned_drone (run_ticks plane [(1000, 1 / 2), (2011 / 2, 1 / 2)]
       (searcher, NavigationSystem_init route)) = Some after_segment \<and>
   search_radius after_segment = Some 6 \<and>
   map_option search_radius (returned_drone
       (update plane 1006 (1 / 2) (begin_search after_segment, NavigationSystem_init route)))
     = Some (Some (11 / 2))"
proof -
  have a: "update plane 1000 16 (searcher, NavigationSystem_init route)
     = Inr (searcher\<lparr>total_search_time := 16, search_start_time := 1000,
                     search_radius := Some 21, search_angle := 960,
                     lat := 80, battery := 100 - 16 / 100\<rparr>, NavigationSystem_init route)"
    by (simp add: update_def update_searching_def searcher_def Drone_init_def Let_def
      move_along_heading_def physics_and_battery_def bearing_plane)
     (simp add: plane_def)
  have b: "returned_drone (run_ticks plane [(1000, 1 / 2), (2011 / 2, 1 / 2)]
       (searcher, NavigationSystem_init route)) = Some after_segment"
    by (simp add: searcher_tick1 searcher_tick2 returned_drone_def after_segment_def)
  have c: "map_option search_radius (returned_drone
       (update plane 1006 (1 / 2) (begin_search after_segment, NavigationSystem_init route)))
     = Some (Some (11 / 2))"
    by (simp add: update_def update_searching_def searcher_def Drone_init_def Let_def
      move_along_heading_def physics_and_battery_def bearing_plane after_segment_def
      begin_search_def returned_drone_def)
  from a b c show ?thesis
    by (simp add: returned_drone_def searcher_def Drone_init_def after_segment_def)
qed

section \<open>The failsafe of a search\<close>

text \<open>
  C4, as the code has it. On a tick in \<open>SEARCHING\<close> that does not end the segment (the
  segment, if started, has its radius and has run for at most 5 s), when the search time
  summed over the segments, this tick's \<open>dt\<close> included, exceeds 30 s: the tick returns, the
  navigator is the given one with the route replaced by the single waypoint at the home
  position (index 0, destination not reached), the drone is in \<open>RETURN_HOME\<close> and its
  total search time is 0.
\<close>

theorem search_failsafe_abort:
  assumes "state d = SEARCHING"
    and "search_start_time d \<noteq> 0 \<longrightarrow>
           search_radius d \<noteq> None \<and> now - search_start_time d \<le> 5"
    and "total_search_time d + dt > 30"
  shows "\<exists>d'. update g now dt (d, nav)
            = Inr (d', set_new_route [\<lparr> wp_name = ''Home'', wp_lat = fst (start_pos_lat_lon d),
                                       wp_lon = snd (start_pos_lat_lon d) \<rparr>] nav) \<and>
           state d' = RETURN_HOME \<and> total_search_time d' = 0"
proof (cases "search_start_time d = 0")
  case True
  with assms(1,3) show ?thesis
    by (simp add: update_def update_searching_def Let_def move_along_heading_def
        physics_and_battery_def)
next
  case False
  with assms(2) obtain r where "search_radius d = Some r" and "now - search_start_time d \<le> 5"
    by auto
  with False assms(1,3) show ?thesis
    by (simp add: update_def update_searching_def Let_def move_along_heading_def
        physics_and_battery_def)
qed

theorem search_failsafe_abort_witness:
  "\<exists>d'. update plane 1003 (1 / 5) (long_searcher, NavigationSystem_init route)
            = Inr (d', \<lparr> waypoints = [home], current_waypoint_idx = 0,
                         reached_destination = False, waypoint_threshold = 5,
                         distance_to_wp = None, bearing_to_wp = None \<rparr>) \<and>
           state d' = RETURN_HOME \<and> total_search_time d' = 0"
  using search_failsafe_abort [of long_searcher 1003 "1 / 5" plane "NavigationSystem_init route"]
  by (simp add: long_searcher_def searcher_def Drone_init_def set_new_route_def
      NavigationSystem_init_def route_def home_def)

text \<open>
  The claim C4 as stated fails. When the tick on which the total passes 30 s also ends the
  segment, the drone goes to \<open>HOVERING\<close>, the route is not replaced and the total is not
  reset: the abort waits for a later search tick. And the abort itself resets the total
  only: the segment timer \<open>search_start_time\<close> keeps its value.
\<close>

theorem search_failsafe_counterexample:
  "map_option state (returned_drone
       (update plane (2011 / 2) (1 / 5) (long_searcher, NavigationSystem_init route)))
     = Some HOVERING \<and>
   map_option total_search_time (returned_drone
       (update plane (2011 / 2) (1 / 5) (long_searcher, NavigationSystem_init route)))
     = Some (301 / 10) \<and>
   returned_nav (update plane (2011 / 2) (1 / 5) (long_searcher, NavigationSystem_init route))
     = Some (NavigationSystem_init route) \<and>
   map_option state (returned_drone
       (update plane 1003 (1 / 5) (long_searcher, NavigationSystem_init route)))
     = Some RETURN_HOME \<and>
   map_option search_start_time (returned_drone
       (update plane 1003 (1 / 5) (long_searcher, NavigationSystem_init route)))
     = Some 1000"
proof -
  have a: "update plane (2011 / 2) (1 / 5) (long_searcher, NavigationSystem_init route)
     = Inr (long_searcher\<lparr>total_search_time := 301 / 10, search_angle := 192, lat := 1,
              state := HOVERING, hover_start_time := Some (2011 / 2), search_start_time := 0\<rparr>,
            NavigationSystem_init route)"
    by (simp add: update_def update_searching_def long_searcher_def searcher_def Drone_init_def
        Let_def move_along_heading_def physics_and_battery_def bearing_plane)
       (simp add: plane_def)
  have b: "update plane 1003 (1 / 5) (long_searcher, NavigationSystem_init route)
     = Inr (long_searcher\<lparr>total_search_time := 0, search_angle := 192, lat := 1,
              state := RETURN_HOME, battery := 100 - 1 / 500\<rparr>,
            set_new_route [home] (NavigationSystem_init route))"
    by (simp add: update_def update_searching_def long_searcher_def searcher_def Drone_init_def
        Let_def move_along_heading_def physics_and_battery_def bearing_plane home_def)
       (simp add: plane_def)
  from a b show ?thesis
    by (simp add: returned_drone_def returned_nav_def long_searcher_def searcher_def Drone_init_def)
qed

end
